theory Spec2Isabelle
  imports Main
begin

section \<open>Data model (contexts/TeamContext.tsx)\<close>

text \<open>
  The \<^verbatim>\<open>Player\<close> interface. \<^verbatim>\<open>creditCost\<close> is a JavaScript number that the
  roster only ever fills with integers, so it is an \<open>int\<close> here; the \<^verbatim>\<open>stats\<close>
  sub-record (floating-point per-set averages) is never read by the lineup logic and is
  left out. The field \<^verbatim>\<open>id\<close> is written \<open>id'\<close>.
\<close>

record player =
  id' :: string
  name :: string
  jerseyNumber :: int
  position :: string
  teamName :: string
  creditCost :: int
  bio :: string
  imageBase64 :: string

text \<open>
  What a slot of the lineup holds at run time. The interface declares
  \<^verbatim>\<open>Player | null\<close>; \<^verbatim>\<open>loadLineup\<close> copies the slots from an untyped JSON payload,
  and a key the payload does not carry is read as \<^verbatim>\<open>undefined\<close>.
\<close>

datatype slot = Undefined | Null | Occupied player

text \<open>
  The second argument of \<^verbatim>\<open>setPlayerToPosition\<close> has the type \<^verbatim>\<open>Player | null\<close>;
  \<open>slot_of\<close> is the slot it fills.
\<close>

fun slot_of :: "player option \<Rightarrow> slot" where
  "slot_of None = Null"
| "slot_of (Some p) = Occupied p"

text \<open>The \<^verbatim>\<open>Lineup\<close> interface: six slots and two derived numbers.\<close>

record lineup =
  setter :: slot
  outsideHitter :: slot
  oppositeHitter :: slot
  middleBlocker :: slot
  libero :: slot
  defensiveSpecialist :: slot
  creditsUsed :: int
  remaining :: int

text \<open>
  \<^verbatim>\<open>keyof Lineup\<close>, the type of the first argument of \<^verbatim>\<open>setPlayerToPosition\<close>:
  the six position keys and the keys of the two derived fields.
\<close>

datatype lineup_key =
  Setter | OutsideHitter | OppositeHitter | MiddleBlocker | Libero | DefensiveSpecialist
  | CreditsUsed | Remaining

text \<open>What \<^verbatim>\<open>lineup[key]\<close> can hold: the content of a slot, or a number.\<close>

datatype field_value = PlayerValue slot | NumberValue int

fun lookup :: "lineup \<Rightarrow> lineup_key \<Rightarrow> field_value" where
  "lookup l Setter = PlayerValue (setter l)"
| "lookup l OutsideHitter = PlayerValue (outsideHitter l)"
| "lookup l OppositeHitter = PlayerValue (oppositeHitter l)"
| "lookup l MiddleBlocker = PlayerValue (middleBlocker l)"
| "lookup l Libero = PlayerValue (libero l)"
| "lookup l DefensiveSpecialist = PlayerValue (defensiveSpecialist l)"
| "lookup l CreditsUsed = NumberValue (creditsUsed l)"
| "lookup l Remaining = NumberValue (remaining l)"

text \<open>
  The object spread \<^verbatim>\<open>{ ...lineup, [position]: player }\<close>. For the two derived keys
  the player would land in a numeric field; \<^verbatim>\<open>calculateCredits\<close> never reads those
  fields and the second spread \<^verbatim>\<open>{ ...newLineup, ...credits }\<close> overwrites both, so
  the record keeps the old number there until it is overwritten.
\<close>

fun spread_key :: "lineup \<Rightarrow> lineup_key \<Rightarrow> player option \<Rightarrow> lineup" where
  "spread_key l Setter p = l\<lparr>setter := slot_of p\<rparr>"
| "spread_key l OutsideHitter p = l\<lparr>outsideHitter := slot_of p\<rparr>"
| "spread_key l OppositeHitter p = l\<lparr>oppositeHitter := slot_of p\<rparr>"
| "spread_key l MiddleBlocker p = l\<lparr>middleBlocker := slot_of p\<rparr>"
| "spread_key l Libero p = l\<lparr>libero := slot_of p\<rparr>"
| "spread_key l DefensiveSpecialist p = l\<lparr>defensiveSpecialist := slot_of p\<rparr>"
| "spread_key l CreditsUsed p = l"
| "spread_key l Remaining p = l"

text \<open>The argument of \<^verbatim>\<open>useState<Lineup>\<close>: the initial empty lineup.\<close>

definition initial_lineup :: lineup where
  "initial_lineup =
     \<lparr>setter = Null, outsideHitter = Null, oppositeHitter = Null, middleBlocker = Null,
      libero = Null, defensiveSpecialist = Null, creditsUsed = 0, remaining = 100\<rparr>"

section \<open>State and effects of the provider\<close>

text \<open>The two \<^verbatim>\<open>useState\<close> cells of \<^verbatim>\<open>TeamProvider\<close>.\<close>

record team_state =
  lineup :: lineup
  saving :: bool

definition initial_state :: team_state where
  "initial_state = \<lparr>lineup = initial_lineup, saving = False\<rparr>"

text \<open>The signed-in identity of \<^verbatim>\<open>useAuth\<close>; only its token is read here.\<close>

record user =
  token :: string

text \<open>The JSON body of the save request: a player id or null per slot.\<close>

record save_body =
  body_setter :: "string option"
  body_outsideHitter :: "string option"
  body_oppositeHitter :: "string option"
  body_middleBlocker :: "string option"
  body_libero :: "string option"
  body_defensiveSpecialist :: "string option"

text \<open>
  The two requests of the provider, each with the bearer token it carries:
  \<^verbatim>\<open>GET /api/lineup\<close> and \<^verbatim>\<open>POST /api/lineup/save\<close>.
\<close>

datatype request = GetLineup string | PostLineupSave string save_body

text \<open>
  Everything a handler does besides computing: calls of the two state setters, a
  \<^verbatim>\<open>fetch\<close>, \<^verbatim>\<open>Alert.alert(title, message)\<close>, \<^verbatim>\<open>console.error\<close>,
  \<^verbatim>\<open>router.back()\<close> and the \<^verbatim>\<open>setSelectedPlayer\<close> of the player list. A handler
  is modelled by the list of its effects in program order, with the error it throws, if
  any. Errors are the \<^verbatim>\<open>Error\<close> objects the code constructs, the \<^verbatim>\<open>TypeError\<close> of
  a rejected \<^verbatim>\<open>fetch\<close> or of a property read on \<^verbatim>\<open>null\<close>, the \<^verbatim>\<open>SyntaxError\<close>
  of a body that is not JSON, and the \<^verbatim>\<open>ReferenceError\<close> of an identifier that is not
  bound.
\<close>

datatype js_error =
  Error string | TypeError string | SyntaxError string | ReferenceError string


datatype effect =
  SetLineup lineup
  | SetSaving bool
  | Fetch request
  | AlertCall string string
  | ConsoleError string js_error
  | RouterBack
  | SetSelectedPlayer player

fun apply_effect :: "team_state \<Rightarrow> effect \<Rightarrow> team_state" where
  "apply_effect st (SetLineup l) = st\<lparr>lineup := l\<rparr>"
| "apply_effect st (SetSaving b) = st\<lparr>saving := b\<rparr>"
| "apply_effect st (Fetch r) = st"
| "apply_effect st (AlertCall t m) = st"
| "apply_effect st (ConsoleError m e) = st"
| "apply_effect st RouterBack = st"
| "apply_effect st (SetSelectedPlayer p) = st"

definition run :: "team_state \<Rightarrow> effect list \<Rightarrow> team_state" where
  "run st effs = foldl apply_effect st effs"

section \<open>The allocator\<close>

text \<open>The \<^verbatim>\<open>positions\<close> array of \<^verbatim>\<open>calculateCredits\<close>.\<close>

definition positions :: "lineup_key list" where
  "positions = [Setter, OutsideHitter, OppositeHitter, MiddleBlocker, Libero, DefensiveSpecialist]"

text \<open>
  \<^verbatim>\<open>calculateCredits\<close>: the \<^verbatim>\<open>forEach\<close> over the six keys with the accumulator
  \<^verbatim>\<open>total\<close>; a slot counts when it holds a non-null object with a \<^verbatim>\<open>creditCost\<close>.
  The result object \<^verbatim>\<open>{ creditsUsed, remaining }\<close> is the pair.
\<close>

definition calculateCredits :: "lineup \<Rightarrow> int \<times> int" where
  "calculateCredits newLineup =
     (let total = foldl (\<lambda>total pos.
                     case lookup newLineup pos of
                       PlayerValue (Occupied player) \<Rightarrow> total + creditCost player
                     | PlayerValue Null \<Rightarrow> total
                     | PlayerValue Undefined \<Rightarrow> total
                     | NumberValue n \<Rightarrow> total) 0 positions
      in (total, 100 - total))"

text \<open>
  \<^verbatim>\<open>setPlayerToPosition\<close>, reading the \<^verbatim>\<open>lineup\<close> of the current render: one
  call of \<^verbatim>\<open>setLineup\<close>.
\<close>

definition setPlayerToPosition :: "lineup \<Rightarrow> lineup_key \<Rightarrow> player option \<Rightarrow> effect list" where
  "setPlayerToPosition l position' player =
     (let newLineup = spread_key l position' player;
          credits = calculateCredits newLineup
      in [SetLineup (newLineup\<lparr>creditsUsed := fst credits, remaining := snd credits\<rparr>)])"

section \<open>JavaScript helpers\<close>

text \<open>
  \<^verbatim>\<open>a || b\<close> on a number that may be missing and on a string that may be missing:
  \<^verbatim>\<open>undefined\<close>, \<^verbatim>\<open>null\<close>, \<^verbatim>\<open>0\<close> and the empty string are falsy.
\<close>

definition or_number :: "int option \<Rightarrow> int \<Rightarrow> int" where
  "or_number v d = (case v of None \<Rightarrow> d | Some n \<Rightarrow> if n = 0 then d else n)"


text \<open>\<^verbatim>\<open>slot?.id || null\<close>.\<close>

definition id_or_null :: "slot \<Rightarrow> string option" where
  "id_or_null s =
     (case s of
        Undefined \<Rightarrow> None
      | Null \<Rightarrow> None
      | Occupied p \<Rightarrow> if id' p = [] then None else Some (id' p))"

text \<open>A number inside a template literal: its decimal digits, with a sign when negative.\<close>

fun show_nat :: "nat \<Rightarrow> string" where
  "show_nat n =
     (if n < 10 then [''0123456789'' ! n]
      else show_nat (n div 10) @ [''0123456789'' ! (n mod 10)])"

declare show_nat.simps [simp del]

definition show_int :: "int \<Rightarrow> string" where
  "show_int i = (if i < 0 then ''-'' @ show_nat (nat (- i)) else show_nat (nat i))"

text \<open>
  A handler's result: its effects and the error it throws. \<open>and_then\<close> is statement
  sequencing: the second statement runs only when the first did not throw.
\<close>

type_synonym outcome = "effect list \<times> js_error option"

definition and_then :: "outcome \<Rightarrow> outcome \<Rightarrow> outcome" where
  "and_then a b =
     (case a of
        (effs, Some e) \<Rightarrow> (effs, Some e)
      | (effs, None) \<Rightarrow> (effs @ fst b, snd b))"

text \<open>
  \<^verbatim>\<open>Alert.alert(title, message)\<close> in a module whose top-level bindings are \<open>scope\<close>:
  evaluating the identifier \<^verbatim>\<open>Alert\<close> throws when the module does not bind it.
\<close>

definition Alert_alert :: "string list \<Rightarrow> string \<Rightarrow> string \<Rightarrow> outcome" where
  "Alert_alert scope title msg =
     (if ''Alert'' \<in> set scope then ([AlertCall title msg], None)
      else ([], Some (ReferenceError ''Alert'')))"

text \<open>What \<^verbatim>\<open>fetch\<close> can do: reject, or resolve to a response with its \<^verbatim>\<open>ok\<close> flag
  and the value \<^verbatim>\<open>response.json()\<close> gives.\<close>

datatype 'a fetch_outcome = Rejected js_error | Response bool 'a

section \<open>JSON values\<close>

text \<open>
  A parsed JSON value. Numbers are the integers; an object is its list of members in the
  order of the text.
\<close>

datatype json =
  JNull | JBool bool | JNumber int | JString string | JArray "json list"
  | JObject "(string \<times> json) list"

text \<open>
  What \<^verbatim>\<open>await response.json()\<close> does: it throws when the body is not JSON, or gives
  the parsed value.
\<close>

datatype json_result = JsonRejected js_error | JsonValue json

text \<open>A member of an object; of a repeated name the last one counts.\<close>

definition field :: "(string \<times> json) list \<Rightarrow> string \<Rightarrow> json option" where
  "field members k = map_of (rev members) k"

text \<open>
  The property read \<^verbatim>\<open>error.detail\<close>: a \<^verbatim>\<open>TypeError\<close> on \<^verbatim>\<open>null\<close>, the member of
  an object when it has one, and \<^verbatim>\<open>undefined\<close> (\<open>None\<close>) on everything else.
\<close>

fun get_detail :: "json \<Rightarrow> js_error + json option" where
  "get_detail JNull = Inl (TypeError ''Cannot read properties of null'')"
| "get_detail (JObject members) = Inr (field members ''detail'')"
| "get_detail (JBool b) = Inr None"
| "get_detail (JNumber n) = Inr None"
| "get_detail (JString s) = Inr None"
| "get_detail (JArray xs) = Inr None"

text \<open>Truthiness: \<^verbatim>\<open>null\<close>, \<^verbatim>\<open>false\<close>, \<^verbatim>\<open>0\<close> and the empty string are falsy.\<close>

fun truthy :: "json \<Rightarrow> bool" where
  "truthy JNull = False"
| "truthy (JBool b) = b"
| "truthy (JNumber n) = (n \<noteq> 0)"
| "truthy (JString s) = (s \<noteq> [])"
| "truthy (JArray xs) = True"
| "truthy (JObject members) = True"

fun join_comma :: "string list \<Rightarrow> string" where
  "join_comma [] = []"
| "join_comma [x] = x"
| "join_comma (x # y # ys) = x @ '','' @ join_comma (y # ys)"

text \<open>
  The string conversion that \<^verbatim>\<open>new Error(value)\<close> applies to its argument: a string
  is itself, an array is its elements joined by commas with \<^verbatim>\<open>null\<close> elements empty,
  an object is \<^verbatim>\<open>[object Object]\<close>.
\<close>

fun to_string :: "json \<Rightarrow> string" where
  "to_string JNull = ''null''"
| "to_string (JBool b) = (if b then ''true'' else ''false'')"
| "to_string (JNumber n) = show_int n"
| "to_string (JString s) = s"
| "to_string (JArray xs) = join_comma (map (\<lambda>x. if x = JNull then [] else to_string x) xs)"
| "to_string (JObject members) = ''[object Object]''"

text \<open>\<^verbatim>\<open>new Error(detail || fallback).message\<close> for a value that may be undefined.\<close>

definition or_message :: "json option \<Rightarrow> string \<Rightarrow> string" where
  "or_message v d =
     (case v of None \<Rightarrow> d | Some j \<Rightarrow> if truthy j then to_string j else d)"

section \<open>Saving and loading (contexts/TeamContext.tsx)\<close>

text \<open>
  \<^verbatim>\<open>saveLineup\<close>. The body of the response is read only when the response is not ok:
  reading it can throw, the read of \<^verbatim>\<open>error.detail\<close> can throw, and otherwise the
  \<^verbatim>\<open>Error\<close> is thrown. The \<^verbatim>\<open>finally\<close> block runs on every way out of the
  \<^verbatim>\<open>try\<close>.
\<close>

definition saveLineup :: "user option \<Rightarrow> lineup \<Rightarrow> json_result fetch_outcome \<Rightarrow> outcome" where
  "saveLineup user l response =
     (case user of
        None \<Rightarrow> ([], None)
      | Some u \<Rightarrow>
          (let body = \<lparr>body_setter = id_or_null (setter l),
                       body_outsideHitter = id_or_null (outsideHitter l),
                       body_oppositeHitter = id_or_null (oppositeHitter l),
                       body_middleBlocker = id_or_null (middleBlocker l),
                       body_libero = id_or_null (libero l),
                       body_defensiveSpecialist = id_or_null (defensiveSpecialist l)\<rparr>;
               started = [SetSaving True, Fetch (PostLineupSave (token u) body)]
           in case response of
                Rejected e \<Rightarrow> (started @ [SetSaving False], Some e)
              | Response ok body_read \<Rightarrow>
                  if \<not> ok
                  then (case body_read of
                          JsonRejected e \<Rightarrow> (started @ [SetSaving False], Some e)
                        | JsonValue error \<Rightarrow>
                            (case get_detail error of
                               Inl e \<Rightarrow> (started @ [SetSaving False], Some e)
                             | Inr detail \<Rightarrow>
                                 (started @ [SetSaving False],
                                  Some (Error (or_message detail ''Failed to save lineup'')))))
                  else (started @ [SetSaving False], None)))"

text \<open>
  The payload of \<^verbatim>\<open>GET /api/lineup\<close>, as far as \<^verbatim>\<open>loadLineup\<close> reads it: per slot
  key a player record, \<^verbatim>\<open>null\<close>, or nothing (the key is missing), and the two numbers
  when the payload carries them.
\<close>

record lineup_data =
  data_setter :: slot
  data_outsideHitter :: slot
  data_oppositeHitter :: slot
  data_middleBlocker :: slot
  data_libero :: slot
  data_defensiveSpecialist :: slot
  data_creditsUsed :: "int option"
  data_remaining :: "int option"

text \<open>
  \<^verbatim>\<open>loadLineup\<close>. It never throws: whatever is thrown inside the \<^verbatim>\<open>try\<close> (by
  \<^verbatim>\<open>fetch\<close>, or by reading the body of an ok response) reaches the \<^verbatim>\<open>catch\<close>
  block, which logs it and returns; \<open>Rejected\<close> stands for that way out.
\<close>

definition loadLineup :: "user option \<Rightarrow> lineup_data fetch_outcome \<Rightarrow> effect list" where
  "loadLineup user response =
     (case user of
        None \<Rightarrow> []
      | Some u \<Rightarrow>
          (case response of
             Rejected error \<Rightarrow>
               [Fetch (GetLineup (token u)), ConsoleError ''Failed to load lineup:'' error]
           | Response ok data \<Rightarrow>
               if ok
               then [Fetch (GetLineup (token u)),
                     SetLineup \<lparr>setter = data_setter data,
                                outsideHitter = data_outsideHitter data,
                                oppositeHitter = data_oppositeHitter data,
                                middleBlocker = data_middleBlocker data,
                                libero = data_libero data,
                                defensiveSpecialist = data_defensiveSpecialist data,
                                creditsUsed = or_number (data_creditsUsed data) 0,
                                remaining = or_number (data_remaining data) 100\<rparr>]
               else [Fetch (GetLineup (token u))]))"

section \<open>The team builder screen (app/team-builder.tsx)\<close>


definition POSITIONS :: "(lineup_key \<times> string \<times> string) list" where
  "POSITIONS =
     [(Setter, ''Setter'', ''S''),
      (OutsideHitter, ''Outside Hitter'', ''OH''),
      (OppositeHitter, ''Opposite Hitter'', ''OPP''),
      (MiddleBlocker, ''Middle Blocker'', ''MB''),
      (Libero, ''Libero'', ''L''),
      (DefensiveSpecialist, ''Defensive Specialist'', ''DS'')]"

definition canSave :: "lineup \<Rightarrow> bool" where
  "canSave l =
     (let allFilled = list_all (\<lambda>pos. lookup l (fst pos) \<noteq> PlayerValue Null) POSITIONS;
          withinBudget = (remaining l \<ge> 0)
      in allFilled \<and> withinBudget)"


section \<open>The player list screen (app/player-list.tsx)\<close>

text \<open>
  The \<^verbatim>\<open>PlayerList\<close> component. The names its module binds at top level: the
  imports, the component and its styles. \<^verbatim>\<open>Alert\<close> is not imported.
\<close>

definition player_list_scope :: "string list" where
  "player_list_scope =
     [''React'', ''useState'', ''useEffect'', ''View'', ''Text'', ''TouchableOpacity'',
      ''StyleSheet'', ''SafeAreaView'', ''FlatList'', ''TextInput'', ''Image'',
      ''ActivityIndicator'', ''Modal'', ''useRouter'', ''useLocalSearchParams'', ''useAuth'',
      ''Player'', ''useTeam'', ''Ionicons'', ''PlayerList'', ''styles'']"

text \<open>
  \<^verbatim>\<open>handleSelectPlayer\<close>, with the route parameter \<^verbatim>\<open>params.position\<close> (absent, or
  a key the team builder passed) and the \<^verbatim>\<open>lineup\<close> of the current render.
\<close>

definition handleSelectPlayer :: "lineup_key option \<Rightarrow> lineup \<Rightarrow> player \<Rightarrow> outcome" where
  "handleSelectPlayer params_position l player =
     (case params_position of
        Some pos \<Rightarrow>
          (let currentPlayer = lookup l pos;
               currentCost = (case currentPlayer of
                                PlayerValue (Occupied cp) \<Rightarrow> creditCost cp
                              | PlayerValue Null \<Rightarrow> 0
                              | PlayerValue Undefined \<Rightarrow> 0
                              | NumberValue n \<Rightarrow> 0);
               newTotal = creditsUsed l - currentCost + creditCost player
           in if newTotal > 100
              then (let availableCredits = 100 - (creditsUsed l - currentCost)
                    in Alert_alert player_list_scope ''Budget Exceeded''
                         (''You don't have enough credits to select this player.''
                          @ [CHR 0x0A, CHR 0x0A] @ ''Player Cost: '' @ show_int (creditCost player)
                          @ '' credits'' @ [CHR 0x0A] @ ''Available Credits: ''
                          @ show_int availableCredits @ '' credits'' @ [CHR 0x0A, CHR 0x0A]
                          @ ''Please select a cheaper player or remove other players to free up credits.''))
              else and_then (setPlayerToPosition l pos (Some player), None) ([RouterBack], None))
      | None \<Rightarrow> ([SetSelectedPlayer player], None))"

section \<open>Sessions\<close>

text \<open>
  What can happen to the provider, one event at a time on the single UI thread: a call of
  \<^verbatim>\<open>setPlayerToPosition\<close>, a \<^verbatim>\<open>loadLineup\<close> or a \<^verbatim>\<open>saveLineup\<close> with what the
  server answered.
\<close>

datatype event =
  Assign lineup_key "player option"
  | Load "user option" "lineup_data fetch_outcome"
  | Save "user option" "json_result fetch_outcome"

fun step :: "team_state \<Rightarrow> event \<Rightarrow> team_state" where
  "step st (Assign k p) = run st (setPlayerToPosition (lineup st) k p)"
| "step st (Load u r) = run st (loadLineup u r)"
| "step st (Save u r) = run st (fst (saveLineup u (lineup st) r))"

definition steps :: "team_state \<Rightarrow> event list \<Rightarrow> team_state" where
  "steps st evs = foldl step st evs"

section \<open>What the specification calls the spend\<close>

text \<open>
  The specification's wording, to compare the code with: the cost of a slot is the
  \<^verbatim>\<open>creditCost\<close> of its occupant and zero when it is absent, and the spend of a
  lineup is the sum over the six slots.
\<close>

definition slot_cost :: "slot \<Rightarrow> int" where
  "slot_cost s = (case s of Undefined \<Rightarrow> 0 | Null \<Rightarrow> 0 | Occupied p \<Rightarrow> creditCost p)"

definition occupied_cost :: "lineup \<Rightarrow> int" where
  "occupied_cost l =
     slot_cost (setter l) + slot_cost (outsideHitter l) + slot_cost (oppositeHitter l)
     + slot_cost (middleBlocker l) + slot_cost (libero l) + slot_cost (defensiveSpecialist l)"

text \<open>A sequence of \<^verbatim>\<open>setPlayerToPosition\<close> calls, each on the state the last one left.\<close>

definition assign :: "team_state \<Rightarrow> lineup_key \<times> player option \<Rightarrow> team_state" where
  "assign st c = run st (setPlayerToPosition (lineup st) (fst c) (snd c))"

definition assign_all :: "team_state \<Rightarrow> (lineup_key \<times> player option) list \<Rightarrow> team_state" where
  "assign_all st calls = foldl assign st calls"

text \<open>A slot is occupied when it holds a player.\<close>

fun occupied :: "slot \<Rightarrow> bool" where
  "occupied (Occupied p) = True"
| "occupied Null = False"
| "occupied Undefined = False"

text \<open>All six slots occupied, slot by slot.\<close>

definition all_occupied :: "lineup \<Rightarrow> bool" where
  "all_occupied l =
     (occupied (setter l) \<and> occupied (outsideHitter l) \<and> occupied (oppositeHitter l)
      \<and> occupied (middleBlocker l) \<and> occupied (libero l)
      \<and> occupied (defensiveSpecialist l))"

text \<open>
  A lineup of the declared type \<^verbatim>\<open>Lineup\<close>: every slot is a player or \<^verbatim>\<open>null\<close>.
\<close>

fun declared :: "slot \<Rightarrow> bool" where
  "declared (Occupied p) = True"
| "declared Null = True"
| "declared Undefined = False"

definition slots_declared :: "lineup \<Rightarrow> bool" where
  "slots_declared l =
     (declared (setter l) \<and> declared (outsideHitter l) \<and> declared (oppositeHitter l)
      \<and> declared (middleBlocker l) \<and> declared (libero l)
      \<and> declared (defensiveSpecialist l))"

text \<open>The invariant of the data model.\<close>

definition budget_invariant :: "lineup \<Rightarrow> bool" where
  "budget_invariant l = (creditsUsed l + remaining l = 100)"

section \<open>Observations on the effects of a handler\<close>



fun alert_of :: "effect \<Rightarrow> (string \<times> string) list" where
  "alert_of (AlertCall t m) = [(t, m)]"
| "alert_of (SetLineup l) = []"
| "alert_of (SetSaving b) = []"
| "alert_of (Fetch r) = []"
| "alert_of (ConsoleError m e) = []"
| "alert_of RouterBack = []"
| "alert_of (SetSelectedPlayer p) = []"

text \<open>The alerts a handler shows to the user, as title and message.\<close>

definition alerts :: "effect list \<Rightarrow> (string \<times> string) list" where
  "alerts effs = concat (map alert_of effs)"

fun console_error_of :: "effect \<Rightarrow> (string \<times> js_error) list" where
  "console_error_of (ConsoleError m e) = [(m, e)]"
| "console_error_of (SetLineup l) = []"
| "console_error_of (SetSaving b) = []"
| "console_error_of (Fetch r) = []"
| "console_error_of (AlertCall t m) = []"
| "console_error_of RouterBack = []"
| "console_error_of (SetSelectedPlayer p) = []"

text \<open>What a handler writes to the console.\<close>

definition console_errors :: "effect list \<Rightarrow> (string \<times> js_error) list" where
  "console_errors effs = concat (map console_error_of effs)"

fun lineup_update_of :: "effect \<Rightarrow> lineup list" where
  "lineup_update_of (SetLineup l) = [l]"
| "lineup_update_of (SetSaving b) = []"
| "lineup_update_of (Fetch r) = []"
| "lineup_update_of (AlertCall t m) = []"
| "lineup_update_of (ConsoleError m e) = []"
| "lineup_update_of RouterBack = []"
| "lineup_update_of (SetSelectedPlayer p) = []"

text \<open>The lineups a handler passes to \<^verbatim>\<open>setLineup\<close>.\<close>

definition lineup_updates :: "effect list \<Rightarrow> lineup list" where
  "lineup_updates effs = concat (map lineup_update_of effs)"

section \<open>Concrete inputs\<close>

definition example_player :: "string \<Rightarrow> int \<Rightarrow> player" where
  "example_player i c =
     \<lparr>id' = i, name = ''Player '' @ i, jerseyNumber = 7, position = ''OH'',
      teamName = ''LOVB Austin'', creditCost = c, bio = [], imageBase64 = []\<rparr>"

definition example_user :: user where
  "example_user = \<lparr>token = ''token''\<rparr>"

text \<open>The example of the specification: six players costing 20, 20, 20, 20, 10 and 10.\<close>

definition six_calls :: "(lineup_key \<times> player option) list" where
  "six_calls =
     [(Setter, Some (example_player ''p1'' 20)),
      (OutsideHitter, Some (example_player ''p2'' 20)),
      (OppositeHitter, Some (example_player ''p3'' 20)),
      (MiddleBlocker, Some (example_player ''p4'' 20)),
      (Libero, Some (example_player ''p5'' 10)),
      (DefensiveSpecialist, Some (example_player ''p6'' 10))]"

definition full_lineup :: lineup where
  "full_lineup = lineup (assign_all initial_state six_calls)"

text \<open>The same lineup as the server sends it back: 100 credits used, 0 remaining.\<close>

definition full_data :: lineup_data where
  "full_data =
     \<lparr>data_setter = Occupied (example_player ''p1'' 20),
      data_outsideHitter = Occupied (example_player ''p2'' 20),
      data_oppositeHitter = Occupied (example_player ''p3'' 20),
      data_middleBlocker = Occupied (example_player ''p4'' 20),
      data_libero = Occupied (example_player ''p5'' 10),
      data_defensiveSpecialist = Occupied (example_player ''p6'' 10),
      data_creditsUsed = Some 100,
      data_remaining = Some 0\<rparr>"

text \<open>A saved lineup with one player of 30 credits.\<close>

definition partial_data :: lineup_data where
  "partial_data =
     \<lparr>data_setter = Occupied (example_player ''p7'' 30),
      data_outsideHitter = Null,
      data_oppositeHitter = Null,
      data_middleBlocker = Null,
      data_libero = Null,
      data_defensiveSpecialist = Null,
      data_creditsUsed = Some 30,
      data_remaining = Some 70\<rparr>"

text \<open>Five slots filled for 90 credits, the setter still missing.\<close>

definition ninety_lineup :: lineup where
  "ninety_lineup =
     lineup (assign_all initial_state
       [(OutsideHitter, Some (example_player ''p2'' 20)),
        (OppositeHitter, Some (example_player ''p3'' 20)),
        (MiddleBlocker, Some (example_player ''p4'' 20)),
        (Libero, Some (example_player ''p5'' 20)),
        (DefensiveSpecialist, Some (example_player ''p6'' 10))])"


text \<open>The session of a user who fills the six slots, saves, and loads the lineup again.\<close>

definition save_and_reload :: "event list" where
  "save_and_reload =
     map (\<lambda>c. Assign (fst c) (snd c)) six_calls
     @ [Save (Some example_user) (Response True (JsonValue (JObject []))),
        Load (Some example_user) (Response True full_data)]"

text \<open>A payload that carries none of the six slot keys.\<close>

definition keyless_data :: lineup_data where
  "keyless_data =
     \<lparr>data_setter = Undefined,
      data_outsideHitter = Undefined,
      data_oppositeHitter = Undefined,
      data_middleBlocker = Undefined,
      data_libero = Undefined,
      data_defensiveSpecialist = Undefined,
      data_creditsUsed = Some 0,
      data_remaining = Some 100\<rparr>"


section \<open>Basic facts\<close>

lemma calculateCredits_eq:
  "calculateCredits l = (occupied_cost l, 100 - occupied_cost l)"
  by (simp add: calculateCredits_def positions_def occupied_cost_def slot_cost_def Let_def
      split: slot.split)

lemma occupied_cost_spread_derived [simp]:
  "occupied_cost (l\<lparr>creditsUsed := c, remaining := r\<rparr>) = occupied_cost l"
  by (simp add: occupied_cost_def)

lemma setPlayerToPosition_eq:
  "setPlayerToPosition l k p =
     [SetLineup ((spread_key l k p)
        \<lparr>creditsUsed := occupied_cost (spread_key l k p),
         remaining := 100 - occupied_cost (spread_key l k p)\<rparr>)]"
  by (simp add: setPlayerToPosition_def calculateCredits_eq Let_def)

lemma lineup_assign:
  "lineup (assign st (k, p)) =
     (spread_key (lineup st) k p)
       \<lparr>creditsUsed := occupied_cost (spread_key (lineup st) k p),
        remaining := 100 - occupied_cost (spread_key (lineup st) k p)\<rparr>"
  by (simp add: assign_def run_def setPlayerToPosition_eq)

lemma assign_consistent:
  "creditsUsed (lineup (assign st c)) = occupied_cost (lineup (assign st c))
   \<and> remaining (lineup (assign st c)) = 100 - creditsUsed (lineup (assign st c))"
  by (cases c) (simp add: lineup_assign)

lemma assign_all_consistent:
  "creditsUsed (lineup st) = occupied_cost (lineup st)
   \<and> remaining (lineup st) = 100 - creditsUsed (lineup st)
   \<Longrightarrow> creditsUsed (lineup (assign_all st calls)) = occupied_cost (lineup (assign_all st calls))
     \<and> remaining (lineup (assign_all st calls)) = 100 - creditsUsed (lineup (assign_all st calls))"
proof (induction calls arbitrary: st)
  case Nil
  then show ?case by (simp add: assign_all_def)
next
  case (Cons c calls)
  have "assign_all st (c # calls) = assign_all (assign st c) calls"
    by (simp add: assign_all_def)
  with Cons.IH [OF assign_consistent] show ?case by simp
qed

lemma initial_consistent:
  "creditsUsed (lineup initial_state) = occupied_cost (lineup initial_state)
   \<and> remaining (lineup initial_state) = 100 - creditsUsed (lineup initial_state)"
  by (simp add: initial_state_def initial_lineup_def occupied_cost_def slot_cost_def)

lemma lookup_spread_same:
  "k \<in> set positions \<Longrightarrow> lookup (spread_key l k p) k = PlayerValue (slot_of p)"
  by (cases k) (simp_all add: positions_def)

lemma lookup_spread_other:
  "k' \<noteq> k \<Longrightarrow> lookup (spread_key l k p) k' = lookup l k'"
  by (cases k; cases k') simp_all

lemma lookup_derived_update:
  "k \<in> set positions \<Longrightarrow> lookup (l\<lparr>creditsUsed := c, remaining := r\<rparr>) k = lookup l k"
  by (cases k) (simp_all add: positions_def)

lemma occupied_cost_clear:
  "lookup l k = PlayerValue (Occupied q) \<Longrightarrow>
     occupied_cost (spread_key l k None) = occupied_cost l - creditCost q"
  by (cases k) (simp_all add: occupied_cost_def slot_cost_def)

text \<open>
  Assignments keep the lineup within its declared type: no call of
  \<^verbatim>\<open>setPlayerToPosition\<close> leaves a slot undefined that was not undefined before.
\<close>

lemma declared_slot_of [simp]: "declared (slot_of p)"
  by (cases p) simp_all

lemma slots_declared_assign:
  "slots_declared (lineup st) \<Longrightarrow> slots_declared (lineup (assign st c))"
  by (cases c; cases "fst c") (simp_all add: lineup_assign slots_declared_def)

lemma slots_declared_assign_all:
  "slots_declared (lineup st) \<Longrightarrow> slots_declared (lineup (assign_all st calls))"
proof (induction calls arbitrary: st)
  case Nil
  then show ?case by (simp add: assign_all_def)
next
  case (Cons c calls)
  have "assign_all st (c # calls) = assign_all (assign st c) calls"
    by (simp add: assign_all_def)
  with Cons.IH [OF slots_declared_assign [OF Cons.prems]] show ?case by simp
qed

lemma slots_declared_initial: "slots_declared (lineup initial_state)"
  by (simp add: slots_declared_def initial_state_def initial_lineup_def)

text \<open>The concrete lineups, computed.\<close>

lemma full_lineup_eq:
  "full_lineup =
     \<lparr>setter = Occupied (example_player ''p1'' 20),
      outsideHitter = Occupied (example_player ''p2'' 20),
      oppositeHitter = Occupied (example_player ''p3'' 20),
      middleBlocker = Occupied (example_player ''p4'' 20),
      libero = Occupied (example_player ''p5'' 10),
      defensiveSpecialist = Occupied (example_player ''p6'' 10),
      creditsUsed = 100, remaining = 0\<rparr>"
  by (simp add: full_lineup_def six_calls_def assign_all_def lineup_assign initial_state_def
      initial_lineup_def occupied_cost_def slot_cost_def example_player_def)


lemma ninety_lineup_eq:
  "ninety_lineup =
     \<lparr>setter = Null,
      outsideHitter = Occupied (example_player ''p2'' 20),
      oppositeHitter = Occupied (example_player ''p3'' 20),
      middleBlocker = Occupied (example_player ''p4'' 20),
      libero = Occupied (example_player ''p5'' 20),
      defensiveSpecialist = Occupied (example_player ''p6'' 10),
      creditsUsed = 90, remaining = 10\<rparr>"
  by (simp add: ninety_lineup_def assign_all_def lineup_assign initial_state_def
      initial_lineup_def occupied_cost_def slot_cost_def example_player_def)

text \<open>Loading and saving, seen from the lineup.\<close>

lemma run_load_failure:
  "run st (loadLineup user (Rejected e)) = st"
  "run st (loadLineup user (Response False d)) = st"
  by (simp_all add: loadLineup_def run_def split: option.split)

lemma saveLineup_effects:
  "fst (saveLineup (Some u) l r) =
     [SetSaving True,
      Fetch (PostLineupSave (token u)
        \<lparr>body_setter = id_or_null (setter l),
         body_outsideHitter = id_or_null (outsideHitter l),
         body_oppositeHitter = id_or_null (oppositeHitter l),
         body_middleBlocker = id_or_null (middleBlocker l),
         body_libero = id_or_null (libero l),
         body_defensiveSpecialist = id_or_null (defensiveSpecialist l)\<rparr>),
      SetSaving False]"
  by (simp add: saveLineup_def Let_def
      split: fetch_outcome.split json_result.split sum.split)

lemma lineup_run_save: "lineup (run st (fst (saveLineup user l r))) = lineup st"
  by (cases user) (simp_all add: saveLineup_effects run_def, simp add: saveLineup_def)

text \<open>
  The paths on which the budget equation holds: the initial state, every
  \<^verbatim>\<open>setPlayerToPosition\<close> call from any state, and, from a state where it holds,
  \<^verbatim>\<open>saveLineup\<close> and a \<^verbatim>\<open>loadLineup\<close> that fails.
\<close>

lemma budget_invariant_other_paths:
  "budget_invariant (lineup initial_state)"
  "budget_invariant (lineup (step st (Assign k p)))"
  "budget_invariant (lineup st) \<Longrightarrow> budget_invariant (lineup (step st (Save u r)))"
  "budget_invariant (lineup st) \<Longrightarrow> budget_invariant (lineup (step st (Load u (Rejected e))))"
  "budget_invariant (lineup st)
     \<Longrightarrow> budget_invariant (lineup (step st (Load u (Response False d))))"
proof -
  show "budget_invariant (lineup initial_state)"
    by (simp add: budget_invariant_def initial_state_def initial_lineup_def)
  show "budget_invariant (lineup (step st (Assign k p)))"
    using assign_consistent [of st "(k, p)"] by (simp add: budget_invariant_def assign_def)
qed (simp_all add: lineup_run_save run_load_failure)


lemma canSave_eq:
  "canSave l =
     (setter l \<noteq> Null \<and> outsideHitter l \<noteq> Null \<and> oppositeHitter l \<noteq> Null
      \<and> middleBlocker l \<noteq> Null \<and> libero l \<noteq> Null \<and> defensiveSpecialist l \<noteq> Null
      \<and> 0 \<le> remaining l)"
  by (simp add: canSave_def POSITIONS_def Let_def)



lemma alert_in_player_list:
  "Alert_alert player_list_scope t m = ([], Some (ReferenceError ''Alert''))"
  by (simp add: Alert_alert_def player_list_scope_def)





text \<open>
  \<^verbatim>\<open>handleSelectPlayer\<close> with a target position, by the hypothetical new total: above
  100 the handler stops at the unbound \<^verbatim>\<open>Alert\<close> before any state is set; otherwise
  it assigns the candidate and navigates back.
\<close>

lemma handleSelectPlayer_with_position:
  "handleSelectPlayer (Some k) l q =
     (if 100 < creditsUsed l
               - (case lookup l k of PlayerValue s \<Rightarrow> slot_cost s | NumberValue n \<Rightarrow> 0)
               + creditCost q
      then ([], Some (ReferenceError ''Alert''))
      else (setPlayerToPosition l k (Some q) @ [RouterBack], None))"
  by (simp add: handleSelectPlayer_def slot_cost_def alert_in_player_list Let_def and_then_def
      split: field_value.split slot.split)

section \<open>The budget invariant\<close>

text \<open>
  C1 at a concrete input. A user fills the six slots with the players of the
  specification's example (20, 20, 20, 20, 10 and 10 credits), saves, and the lineup is
  loaded again; the server sends it back with 100 credits used and 0 remaining. Before
  the load the state satisfies \<open>creditsUsed + remaining = 100\<close>. The load stores
  \<^verbatim>\<open>data.remaining || 100\<close>, and 0 is falsy: the state then has 100 credits used and
  100 remaining, and the equation fails.
\<close>

theorem load_breaks_invariant:
  "budget_invariant (lineup (steps initial_state (butlast save_and_reload)))
   \<and> creditsUsed (lineup (steps initial_state save_and_reload)) = 100
   \<and> remaining (lineup (steps initial_state save_and_reload)) = 100
   \<and> \<not> budget_invariant (lineup (steps initial_state save_and_reload))"
  by (simp add: save_and_reload_def six_calls_def steps_def budget_invariant_def
      setPlayerToPosition_eq saveLineup_effects loadLineup_def run_def full_data_def
      initial_state_def initial_lineup_def occupied_cost_def slot_cost_def example_player_def
      example_user_def or_number_def)

section \<open>Assignment\<close>

text \<open>
  C2. After every sequence of \<^verbatim>\<open>setPlayerToPosition\<close> calls from the initial empty
  lineup (the empty sequence and so every prefix included), \<open>creditsUsed\<close> is the sum
  of \<open>creditCost\<close> over the occupied slots, absent slots counting zero, and
  \<open>remaining\<close> is \<open>100 - creditsUsed\<close>.
\<close>

theorem assign_all_credits:
  "creditsUsed (lineup (assign_all initial_state calls))
     = occupied_cost (lineup (assign_all initial_state calls))
   \<and> remaining (lineup (assign_all initial_state calls))
     = 100 - creditsUsed (lineup (assign_all initial_state calls))"
  by (rule assign_all_consistent [OF initial_consistent])

text \<open>
  C4. For each of the six position keys and every player or null,
  \<^verbatim>\<open>setPlayerToPosition\<close> does exactly one thing, a single \<^verbatim>\<open>setLineup\<close> call: no
  error, no other effect, no budget check. The lineup it stores has the new occupant in
  the slot, the other five slots as they were, \<open>creditsUsed\<close> equal to the sum of
  \<open>creditCost\<close> over its six slots and \<open>remaining\<close> equal to \<open>100 - creditsUsed\<close>,
  which is negative as soon as the sum exceeds 100.
\<close>

theorem setPlayerToPosition_unchecked:
  assumes "k \<in> set positions"
  shows "\<exists>l'. setPlayerToPosition l k p = [SetLineup l']
           \<and> lookup l' k = PlayerValue (slot_of p)
           \<and> (\<forall>k'\<in>set positions. k' \<noteq> k \<longrightarrow> lookup l' k' = lookup l k')
           \<and> creditsUsed l' = occupied_cost l'
           \<and> remaining l' = 100 - creditsUsed l'
           \<and> (100 < occupied_cost l' \<longrightarrow> remaining l' < 0)"
proof -
  let ?n = "spread_key l k p"
  let ?l' = "?n\<lparr>creditsUsed := occupied_cost ?n, remaining := 100 - occupied_cost ?n\<rparr>"
  have "setPlayerToPosition l k p = [SetLineup ?l']"
    by (rule setPlayerToPosition_eq)
  moreover have "lookup ?l' k = PlayerValue (slot_of p)"
    using assms by (simp add: lookup_derived_update lookup_spread_same)
  moreover have "\<forall>k'\<in>set positions. k' \<noteq> k \<longrightarrow> lookup ?l' k' = lookup l k'"
    by (simp add: lookup_derived_update lookup_spread_other)
  moreover have "creditsUsed ?l' = occupied_cost ?l'" by simp
  moreover have "remaining ?l' = 100 - creditsUsed ?l'" by simp
  moreover have "100 < occupied_cost ?l' \<longrightarrow> remaining ?l' < 0" by simp
  ultimately show ?thesis by blast
qed

text \<open>
  A player of 120 credits goes into the empty lineup unchecked: 120 used, 20 below zero
  remaining.
\<close>

theorem setPlayerToPosition_unchecked_witness:
  "Setter \<in> set positions
   \<and> (\<exists>l'. setPlayerToPosition initial_lineup Setter (Some (example_player ''p9'' 120))
              = [SetLineup l']
            \<and> lookup l' Setter = PlayerValue (Occupied (example_player ''p9'' 120))
            \<and> 100 < occupied_cost l'
            \<and> creditsUsed l' = 120
            \<and> remaining l' = - 20)"
proof -
  have k: "Setter \<in> set positions" by (simp add: positions_def)
  from setPlayerToPosition_unchecked [OF k, of initial_lineup "Some (example_player ''p9'' 120)"]
  obtain l' where
    l': "setPlayerToPosition initial_lineup Setter (Some (example_player ''p9'' 120))
           = [SetLineup l']"
    and s: "lookup l' Setter = PlayerValue (slot_of (Some (example_player ''p9'' 120)))"
    and c: "creditsUsed l' = occupied_cost l'"
    and r: "remaining l' = 100 - creditsUsed l'"
    by blast
  from l' have "l' = initial_lineup\<lparr>setter := Occupied (example_player ''p9'' 120),
                                   creditsUsed := 120, remaining := - 20\<rparr>"
    by (simp add: setPlayerToPosition_eq initial_lineup_def occupied_cost_def slot_cost_def
        example_player_def)
  then have "occupied_cost l' = 120"
    by (simp add: initial_lineup_def occupied_cost_def slot_cost_def example_player_def)
  with k l' s c r show ?thesis by simp
qed

text \<open>
  C7. In every state reached from the initial lineup by \<^verbatim>\<open>setPlayerToPosition\<close>
  calls, when a slot holds a player, assigning null to that slot lowers \<open>creditsUsed\<close>
  by exactly that player's \<open>creditCost\<close> and raises \<open>remaining\<close> by the same amount.
\<close>

theorem clear_slot_refunds:
  assumes "lookup (lineup (assign_all initial_state calls)) k = PlayerValue (Occupied q)"
  shows "creditsUsed (lineup (assign (assign_all initial_state calls) (k, None)))
           = creditsUsed (lineup (assign_all initial_state calls)) - creditCost q
         \<and> remaining (lineup (assign (assign_all initial_state calls) (k, None)))
           = remaining (lineup (assign_all initial_state calls)) + creditCost q"
proof -
  let ?st = "assign_all initial_state calls"
  have before: "creditsUsed (lineup ?st) = occupied_cost (lineup ?st)"
    "remaining (lineup ?st) = 100 - creditsUsed (lineup ?st)"
    using assign_all_consistent [OF initial_consistent, of calls] by simp_all
  have "occupied_cost (spread_key (lineup ?st) k None)
          = occupied_cost (lineup ?st) - creditCost q"
    using assms by (rule occupied_cost_clear)
  with before show ?thesis by (simp add: lineup_assign)
qed

text \<open>Clearing the libero of the full example lineup gives his 10 credits back.\<close>

theorem clear_slot_refunds_witness:
  "lookup (lineup (assign_all initial_state six_calls)) Libero
     = PlayerValue (Occupied (example_player ''p5'' 10))
   \<and> creditsUsed (lineup (assign_all initial_state six_calls)) = 100
   \<and> creditsUsed (lineup (assign (assign_all initial_state six_calls) (Libero, None))) = 90
   \<and> remaining (lineup (assign (assign_all initial_state six_calls) (Libero, None))) = 10"
proof -
  have eq: "lineup (assign_all initial_state six_calls) = full_lineup"
    by (simp add: full_lineup_def)
  have h: "lookup (lineup (assign_all initial_state six_calls)) Libero
     = PlayerValue (Occupied (example_player ''p5'' 10))"
    by (simp add: eq full_lineup_eq)
  from clear_slot_refunds [OF h] h show ?thesis
    by (simp add: eq full_lineup_eq example_player_def)
qed

text \<open>
  C10. Nothing deduplicates: assigning one player to the setter slot and then to the
  libero slot of the empty lineup leaves the player in both slots, and \<open>creditsUsed\<close>
  counts the player's \<open>creditCost\<close> twice.
\<close>

theorem same_player_twice:
  "setter (lineup (assign_all initial_state [(Setter, Some q), (Libero, Some q)])) = Occupied q
   \<and> libero (lineup (assign_all initial_state [(Setter, Some q), (Libero, Some q)])) = Occupied q
   \<and> creditsUsed (lineup (assign_all initial_state [(Setter, Some q), (Libero, Some q)]))
       = 2 * creditCost q"
  by (simp add: assign_all_def lineup_assign initial_state_def initial_lineup_def
      occupied_cost_def slot_cost_def)

section \<open>The save gate\<close>

text \<open>
  The gate tests each slot against \<^verbatim>\<open>null\<close> only. A lineup loaded from a payload
  that carries none of the slot keys has six undefined slots: no slot is occupied, the
  gate passes, and a signed-in user's save goes to the server.
\<close>

lemma handleSave_keyless:
  "\<not> all_occupied (lineup (step initial_state
          (Load (Some example_user) (Response True keyless_data))))
   \<and> canSave (lineup (step initial_state
          (Load (Some example_user) (Response True keyless_data))))"
  by (simp add: loadLineup_def run_def keyless_data_def all_occupied_def canSave_eq
      or_number_def)




section \<open>Loading\<close>

text \<open>
  C5. On an ok response \<^verbatim>\<open>loadLineup\<close> makes one \<^verbatim>\<open>setLineup\<close> call with the six
  slots of the payload and the two derived fields of the payload under the falsy
  fallback: \<open>creditsUsed\<close> is the payload's value when that is a number other than
  zero and 0 otherwise, \<open>remaining\<close> is the payload's value when that is a number
  other than zero and 100 otherwise. Nothing is computed from the slots. A payload whose
  \<open>remaining\<close> is 0 therefore leaves 100 in the state.
\<close>

theorem loadLineup_falsy_fallback:
  "lineup_updates (loadLineup (Some u) (Response True d)) =
     [\<lparr>setter = data_setter d,
       outsideHitter = data_outsideHitter d,
       oppositeHitter = data_oppositeHitter d,
       middleBlocker = data_middleBlocker d,
       libero = data_libero d,
       defensiveSpecialist = data_defensiveSpecialist d,
       creditsUsed = (case data_creditsUsed d of None \<Rightarrow> 0 | Some c \<Rightarrow> if c \<noteq> 0 then c else 0),
       remaining = (case data_remaining d of None \<Rightarrow> 100 | Some r \<Rightarrow> if r \<noteq> 0 then r else 100)\<rparr>]
   \<and> (data_remaining d = Some 0 \<longrightarrow>
        remaining (lineup (run st (loadLineup (Some u) (Response True d)))) = 100)"
  by (simp add: loadLineup_def lineup_updates_def run_def or_number_def split: option.split)

text \<open>
  The full lineup as the server sends it back, with 100 credits used and 0 remaining, is
  stored with 100 used and 100 remaining.
\<close>

theorem loadLineup_falsy_fallback_witness:
  "data_remaining full_data = Some 0
   \<and> remaining (lineup (run initial_state
         (loadLineup (Some example_user) (Response True full_data)))) = 100
   \<and> creditsUsed (lineup (run initial_state
         (loadLineup (Some example_user) (Response True full_data)))) = 100"
  using loadLineup_falsy_fallback [of example_user full_data initial_state]
  by (simp add: full_data_def loadLineup_def run_def or_number_def)

text \<open>
  C8, as the code has it. When the request is rejected or the response is not ok, the
  whole state of the provider (six slots, both derived fields, the saving flag) is what
  it was, and no alert is shown. A rejected request is logged to the console with its
  error; a response that is not ok is not logged at all.
\<close>

theorem loadLineup_failure:
  "run st (loadLineup user (Rejected e)) = st
   \<and> run st (loadLineup user (Response False d)) = st
   \<and> alerts (loadLineup user (Rejected e)) = []
   \<and> alerts (loadLineup user (Response False d)) = []
   \<and> console_errors (loadLineup (Some u) (Rejected e)) = [(''Failed to load lineup:'', e)]
   \<and> console_errors (loadLineup user (Response False d)) = []"
  by (cases user) (simp_all add: loadLineup_def run_def alerts_def console_errors_def)

text \<open>
  C8 as stated fails on a response that is not ok: the \<^verbatim>\<open>if (response.ok)\<close> has no
  other branch, so nothing reaches the console.
\<close>

theorem loadLineup_not_ok_unlogged:
  "console_errors (loadLineup (Some example_user) (Response False partial_data)) = []"
  by (simp add: loadLineup_def console_errors_def)

section \<open>Saving\<close>



section \<open>Selecting a player\<close>

text \<open>
  C6 at a concrete input. The lineup holds five players for 90 credits and the setter
  slot is empty; the candidate for the setter slot costs 20, so the hypothetical total is
  110. The handler reaches \<^verbatim>\<open>Alert.alert\<close>, but \<^verbatim>\<open>player-list.tsx\<close> does not import
  \<^verbatim>\<open>Alert\<close>: the call throws a \<^verbatim>\<open>ReferenceError\<close>. No message is shown and
  \<^verbatim>\<open>setPlayerToPosition\<close> is not called.
\<close>

theorem handleSelectPlayer_over_budget_throws:
  "handleSelectPlayer (Some Setter) ninety_lineup (example_player ''p1'' 20)
     = ([], Some (ReferenceError ''Alert''))"
  by (simp add: handleSelectPlayer_def ninety_lineup_eq alert_in_player_list example_player_def
      Let_def)

end
